theory Spec2Isabelle
  imports Main
begin

section \<open>Text primitives\<close>

text \<open>
  A document is the decoded text handed to \<^verbatim>\<open>RobustCSVParser.parse\<close>, a Python
  \<^verbatim>\<open>str\<close>; it is modelled as a \<^typ>\<open>string\<close>, one \<^typ>\<open>char\<close> per code point
  (code points below 256). Offsets are indices into that list, as Python's are.
\<close>

definition NUL :: char where
  "NUL = CHR 0x00"

definition newline :: char where
  "newline = CHR 0x0A"

definition is_quote :: "char \<Rightarrow> bool" where
  "is_quote c = (c = CHR 0x27 \<or> c = CHR 0x22)"

text \<open>\<^verbatim>\<open>s.startswith(p)\<close>.\<close>

fun startswith :: "string \<Rightarrow> string \<Rightarrow> bool" where
  "startswith s [] = True"
| "startswith [] (p # ps) = False"
| "startswith (c # cs) (p # ps) = (c = p \<and> startswith cs ps)"

text \<open>
  \<^verbatim>\<open>data[slice(a, b)]\<close> for non-negative \<^verbatim>\<open>a\<close> and \<^verbatim>\<open>b\<close>, where \<^verbatim>\<open>b\<close> may be
  \<^verbatim>\<open>None\<close>: Python clamps both bounds to the length and gives the empty string when
  the bounds cross.
\<close>

definition py_slice :: "string \<Rightarrow> nat \<Rightarrow> nat option \<Rightarrow> string" where
  "py_slice data a b = (case b of None \<Rightarrow> drop a data | Some b' \<Rightarrow> take (b' - a) (drop a data))"

text \<open>\<^verbatim>\<open>fp.readline()\<close>: the text up to and including the first line feed.\<close>

fun readline :: "string \<Rightarrow> string" where
  "readline [] = []"
| "readline (c # cs) = (if c = newline then [c] else c # readline cs)"

text \<open>\<^verbatim>\<open>s.split(sep)[0]\<close> for a non-empty \<^verbatim>\<open>sep\<close>: the text before its first occurrence.\<close>

fun first_field :: "string \<Rightarrow> string \<Rightarrow> string" where
  "first_field sep [] = []"
| "first_field sep (c # cs) = (if startswith (c # cs) sep then [] else c # first_field sep cs)"

text \<open>\<^verbatim>\<open>data.replace("\0", "")\<close>.\<close>

definition strip_nul :: "string \<Rightarrow> string" where
  "strip_nul data = filter (\<lambda>c. c \<noteq> NUL) data"

section \<open>Header locator\<close>

text \<open>
  The pattern compiled in \<^verbatim>\<open>parse\<close> is
  \<^verbatim>\<open>['\"]?(G).*$\<close> with the flag \<^verbatim>\<open>re.MULTILINE\<close>, where \<^verbatim>\<open>G\<close> is the configured
  regular expression or the escaped marker string. The group \<^verbatim>\<open>G\<close> is represented by
  what the regular expression engine computes for it: for a text and an offset, the end
  offsets of the ways \<^verbatim>\<open>G\<close> matches at that offset, in the engine's order of preference.
\<close>

type_synonym matcher = "string \<Rightarrow> nat \<Rightarrow> nat list"

text \<open>\<^verbatim>\<open>re.escape(s)\<close> matches exactly the text \<^verbatim>\<open>s\<close>.\<close>

definition literal :: "string \<Rightarrow> matcher" where
  "literal s data p = (if startswith (drop p data) s then [p + length s] else [])"

text \<open>An engine reports only ends between the start offset and the end of the text.\<close>

definition group_ends :: "matcher \<Rightarrow> string \<Rightarrow> nat \<Rightarrow> nat list" where
  "group_ends g data p = filter (\<lambda>e. p \<le> e \<and> e \<le> length data) (g data p)"

text \<open>
  \<^verbatim>\<open>.*\<close> is greedy and \<^verbatim>\<open>.\<close> matches every character but the line feed, so after the
  group ends at \<open>e\<close> it runs to the end of the line holding \<open>e\<close>; there \<^verbatim>\<open>$\<close> succeeds
  (end of text, or just before a line feed, by \<^verbatim>\<open>re.MULTILINE\<close>).
\<close>

definition line_end :: "string \<Rightarrow> nat \<Rightarrow> nat" where
  "line_end data e = e + length (takeWhile (\<lambda>c. c \<noteq> newline) (drop e data))"

text \<open>
  The ends of the whole pattern at offset \<open>p\<close>, in the order the backtracking engine
  tries them: first with the optional quote consumed, then without it.
\<close>

definition header_ends :: "matcher \<Rightarrow> string \<Rightarrow> nat \<Rightarrow> nat list" where
  "header_ends g data p =
     (if p < length data \<and> is_quote (data ! p)
      then map (line_end data) (group_ends g data (Suc p)) else [])
     @ map (line_end data) (group_ends g data p)"

text \<open>
  One match attempt at \<open>p\<close>. After an empty match the scanner of \<^verbatim>\<open>re.finditer\<close>
  retries at the same offset and refuses another empty match there
  (\<^verbatim>\<open>must_advance\<close>).
\<close>

definition match_at :: "matcher \<Rightarrow> string \<Rightarrow> nat \<Rightarrow> bool \<Rightarrow> nat option" where
  "match_at g data p must_advance =
     find (\<lambda>e. \<not> (must_advance \<and> e = p)) (header_ends g data p)"

text \<open>\<^verbatim>\<open>pattern.search\<close> from \<open>pos\<close>: the leftmost offset with a match.\<close>

function search :: "matcher \<Rightarrow> string \<Rightarrow> nat \<Rightarrow> bool \<Rightarrow> (nat \<times> nat) option" where
  "search g data pos must_advance =
     (if length data < pos then None
      else case match_at g data pos must_advance of
             Some e \<Rightarrow> Some (pos, e)
           | None \<Rightarrow> search g data (Suc pos) False)"
  by pat_completeness auto
termination
  by (relation "measure (\<lambda>(g, data, pos, m). Suc (length data) - pos)") auto

declare search.simps [simp del]

lemma line_end_ge: "e \<le> line_end data e"
  by (simp add: line_end_def)

lemma line_end_le: "e \<le> length data \<Longrightarrow> line_end data e \<le> length data"
proof -
  assume e: "e \<le> length data"
  have "length (takeWhile (\<lambda>c. c \<noteq> newline) (drop e data)) \<le> length (drop e data)"
    by (rule length_takeWhile_le)
  with e show ?thesis by (simp add: line_end_def)
qed

lemma header_ends_range:
  assumes "e \<in> set (header_ends g data p)"
  shows "p \<le> e \<and> e \<le> length data"
proof -
  from assms consider
    (quoted) e' where "e' \<in> set (group_ends g data (Suc p))" "e = line_end data e'"
  | (plain) e' where "e' \<in> set (group_ends g data p)" "e = line_end data e'"
    by (auto simp: header_ends_def split: if_splits)
  then show ?thesis
  proof cases
    case quoted
    then have "Suc p \<le> e'" "e' \<le> length data" by (auto simp: group_ends_def)
    with quoted(2) line_end_ge [of e' data] line_end_le [of e' data] show ?thesis by simp
  next
    case plain
    then have "p \<le> e'" "e' \<le> length data" by (auto simp: group_ends_def)
    with plain(2) line_end_ge [of e' data] line_end_le [of e' data] show ?thesis by simp
  qed
qed

lemma match_at_Some:
  assumes "match_at g data p m = Some e"
  shows "e \<in> set (header_ends g data p) \<and> \<not> (m \<and> e = p)"
  using assms unfolding match_at_def by (auto simp: find_Some_iff)

lemma search_Some:
  "search g data pos m = Some (s, e) \<Longrightarrow>
     pos \<le> s \<and> s \<le> e \<and> e \<le> length data \<and> e \<in> set (header_ends g data s)
     \<and> \<not> (m \<and> s = pos \<and> e = s)"
proof (induction g data pos m rule: search.induct)
  case (1 g data pos m)
  show ?case
  proof (cases "length data < pos")
    case True
    with "1.prems" show ?thesis by (simp add: search.simps [of g data pos m])
  next
    case False
    show ?thesis
    proof (cases "match_at g data pos m")
      case None
      with False "1.prems" have "search g data (Suc pos) False = Some (s, e)"
        by (simp add: search.simps [of g data pos m])
      from "1.IH" [OF False None this] show ?thesis by auto
    next
      case (Some e')
      with False "1.prems" have eq: "s = pos" "e = e'"
        by (simp_all add: search.simps [of g data pos m])
      from match_at_Some [OF Some] header_ends_range [of e' g data pos] eq
      show ?thesis by auto
    qed
  qed
qed

text \<open>
  \<^verbatim>\<open>re.finditer\<close>: successive searches, each from the end of the previous match;
  \<^verbatim>\<open>must_advance\<close> is set exactly when the previous match was empty.
\<close>

function finditer :: "matcher \<Rightarrow> string \<Rightarrow> nat \<Rightarrow> bool \<Rightarrow> (nat \<times> nat) list" where
  "finditer g data pos must_advance =
     (case search g data pos must_advance of
        None \<Rightarrow> []
      | Some (s, e) \<Rightarrow> (s, e) # finditer g data e (e = s))"
  by pat_completeness auto
termination
proof (relation "measure (\<lambda>(g, data, pos, m). 2 * (Suc (length data) - pos) + (if m then 0 else 1))")
  show "wf (measure (\<lambda>(g, data, pos, m). 2 * (Suc (length data) - pos) + (if m then 0 else 1)))"
    by simp
next
  fix g :: matcher and data pos must_advance x2 s e
  assume "search g data pos must_advance = Some x2" "(s, e) = x2"
  then have "search g data pos must_advance = Some (s, e)" by simp
  from search_Some [OF this]
  show "((g, data, e, e = s), (g, data, pos, must_advance))
        \<in> measure (\<lambda>(g, data, pos, m). 2 * (Suc (length data) - pos) + (if m then 0 else 1))"
    by (cases "e = pos") auto
qed

declare finditer.simps [simp del]

text \<open>The start offsets \<^verbatim>\<open>match.start()\<close> of all header matches, in order.\<close>

definition header_starts :: "matcher \<Rightarrow> string \<Rightarrow> nat list" where
  "header_starts g data = map fst (finditer g data 0 False)"

section \<open>Exceptions, results and the log\<close>

text \<open>
  The exception classes the parser's handlers tell apart. \<^verbatim>\<open>pandas.errors.ParserError\<close>
  and \<^verbatim>\<open>pandas.errors.EmptyDataError\<close> are subclasses of \<^verbatim>\<open>ValueError\<close>;
  \<open>OtherError cls msg\<close> stands for every other exception class.
\<close>

datatype exc =
    ValueError string
  | ParserError string
  | EmptyDataError string
  | TypeError string
  | RuntimeWarning string
  | OtherError string string

text \<open>\<^verbatim>\<open>str(err)\<close>.\<close>

fun exc_message :: "exc \<Rightarrow> string" where
  "exc_message (ValueError m) = m"
| "exc_message (ParserError m) = m"
| "exc_message (EmptyDataError m) = m"
| "exc_message (TypeError m) = m"
| "exc_message (RuntimeWarning m) = m"
| "exc_message (OtherError c m) = m"

text \<open>\<^verbatim>\<open>isinstance(err, ValueError)\<close>.\<close>

fun is_ValueError :: "exc \<Rightarrow> bool" where
  "is_ValueError (ValueError m) = True"
| "is_ValueError (ParserError m) = True"
| "is_ValueError (EmptyDataError m) = True"
| "is_ValueError (TypeError m) = False"
| "is_ValueError (RuntimeWarning m) = False"
| "is_ValueError (OtherError c m) = False"

fun is_RuntimeWarning :: "exc \<Rightarrow> bool" where
  "is_RuntimeWarning (RuntimeWarning m) = True"
| "is_RuntimeWarning (ValueError m) = False"
| "is_RuntimeWarning (ParserError m) = False"
| "is_RuntimeWarning (EmptyDataError m) = False"
| "is_RuntimeWarning (TypeError m) = False"
| "is_RuntimeWarning (OtherError c m) = False"

text \<open>What a call does: it returns a value, or an exception leaves it.\<close>

datatype 'a outcome = Returned 'a | Raised exc

text \<open>A log record: the level and the formatted message.\<close>

datatype level = INFO | WARNING | ERROR

type_synonym log_record = "level \<times> string"

definition errors_logged :: "log_record list \<Rightarrow> nat" where
  "errors_logged lg = length (filter (\<lambda>r. fst r = ERROR) lg)"

section \<open>The parser object\<close>

text \<open>
  The \<^verbatim>\<open>dtype\<close> argument: one type name for all columns, or a mapping from column
  names to type names.
\<close>

datatype dtype = AllColumns string | PerColumn "(string \<times> string) list"

text \<open>
  The keyword arguments passed through to \<^verbatim>\<open>pandas.read_csv\<close> that the parser itself
  reads: for each, \<open>None\<close> means that the key is absent from \<^verbatim>\<open>csv_kwargs\<close>.
  \<open>kw_parse_dates\<close> keeps the truth value of the argument.
\<close>

record kwargs =
  kw_index_col :: "nat option"
  kw_parse_dates :: "bool option"
  kw_dtype :: "dtype option"
  kw_date_format :: "string option"

text \<open>
  The fields of \<^verbatim>\<open>RobustCSVParser\<close>. A regular expression is kept as its source text
  (its truth value decides \<^verbatim>\<open>header_regex or ...\<close> and \<^verbatim>\<open>column_regex or "."\<close>) with
  what the engine computes for it: a \<^typ>\<open>matcher\<close> for the header, and for the column
  filter whether \<^verbatim>\<open>re.search\<close> succeeds on a column name. \<open>process_func\<close> returns a
  frame or \<^verbatim>\<open>None\<close>, or raises.
\<close>

record 'f parser =
  sep :: string
  encoding :: string
  header_regex :: "(string \<times> matcher) option"
  header_string :: "string option"
  csv_kwargs :: kwargs
  column_regex :: "string \<times> (string \<Rightarrow> bool)"
  process_func :: "('f \<Rightarrow> exc + 'f option) option"
  default_tz :: string

text \<open>The pattern \<^verbatim>\<open>.\<close> found by \<^verbatim>\<open>re.search\<close>: some character is not a line feed.\<close>

definition match_anything :: "string \<times> (string \<Rightarrow> bool)" where
  "match_anything = (''.'', list_ex (\<lambda>c. c \<noteq> newline))"

text \<open>
  \<^verbatim>\<open>RobustCSVParser.__init__\<close>: the new object and the warnings issued.
\<close>

definition init ::
  "string \<Rightarrow> string \<Rightarrow> string option \<Rightarrow> (string \<times> matcher) option \<Rightarrow>
   (string \<times> (string \<Rightarrow> bool)) option \<Rightarrow> ('f \<Rightarrow> exc + 'f option) option \<Rightarrow> string \<Rightarrow> kwargs \<Rightarrow>
   'f parser \<times> string list" where
  "init sep' encoding' header_string' header_regex' column_regex' process_func' default_tz' kw =
     (\<lparr> sep = sep',
        encoding = encoding',
        header_regex = header_regex',
        header_string = header_string',
        csv_kwargs = kw,
        column_regex =
          (case column_regex' of
             None \<Rightarrow> match_anything
           | Some r \<Rightarrow> if fst r = [] then match_anything else r),
        process_func = process_func',
        default_tz = default_tz' \<rparr>,
      if header_regex' \<noteq> None \<and> header_string' \<noteq> None
      then [''Both `header_string` and `header_regex` given, only using the regular expression.'']
      else [])"

definition no_kwargs :: kwargs where
  "no_kwargs = \<lparr> kw_index_col = None, kw_parse_dates = None, kw_dtype = None,
                 kw_date_format = None \<rparr>"

text \<open>
  The keyword arguments \<^verbatim>\<open>_parse_frame\<close> hands to \<^verbatim>\<open>read_csv\<close>: when the key
  \<^verbatim>\<open>parse_dates\<close> is present, it is set to \<^verbatim>\<open>False\<close> and \<^verbatim>\<open>dtype\<close> to \<^verbatim>\<open>None\<close>.
  (\<^verbatim>\<open>sep\<close> is passed beside them; \<^verbatim>\<open>header=0\<close>, \<^verbatim>\<open>engine="c"\<close> and
  \<^verbatim>\<open>on_bad_lines="warn"\<close> are constants of every call.)
\<close>

definition read_kwargs :: "kwargs \<Rightarrow> kwargs" where
  "read_kwargs kw =
     (if kw_parse_dates kw \<noteq> None
      then kw\<lparr> kw_parse_dates := Some False, kw_dtype := None \<rparr>
      else kw)"

section \<open>The table library\<close>

text \<open>
  The calls into pandas, the warnings module and NumPy are parameters of the model: a
  value of this record gives, for a type \<open>'f\<close> of frames, what each call computes.
  \<^item> \<open>read_csv sep kw text\<close>: \<^verbatim>\<open>pd.read_csv(StringIO(text), sep=sep, header=0, engine="c",
    on_bad_lines="warn", **kw)\<close> under \<^verbatim>\<open>catch_warnings(category=ParserWarning,
    action="ignore", record=True)\<close>: an exception, or the recorded warnings and the frame;
  \<^item> \<open>dropna_columns\<close>: \<^verbatim>\<open>.dropna(axis=1, how="all")\<close>;
  \<^item> \<open>filter_columns\<close>: \<^verbatim>\<open>.filter(regex=...)\<close>;
  \<^item> \<open>index_name\<close>: \<^verbatim>\<open>df.index.name\<close>;
  \<^item> \<open>datetime_index fmt tz df\<close>: \<open>df\<close> with its index replaced by
    \<^verbatim>\<open>pd.DatetimeIndex(pd.to_datetime(df.index, format=fmt, errors="coerce"), tz=tz,
    name=df.index.name)\<close>;
  \<^item> \<open>tz_convert tz df\<close>: \<open>df\<close> with its index replaced by \<^verbatim>\<open>df.index.tz_convert(tz)\<close>;
  \<^item> \<open>astype dtype df\<close>: the warnings \<^verbatim>\<open>df.astype(dtype)\<close> issues, each with its
    category and message, and the exception or frame it ends with;
  \<^item> \<open>warn_is_error category message\<close>: whether the interpreter's warning filters turn
    such a warning into an exception;
  \<^item> \<open>concat\<close>: \<^verbatim>\<open>pd.concat(frames, join="outer")\<close> on a non-empty list of frames;
  \<^item> \<open>set_source s df\<close>: \<open>df\<close> after \<^verbatim>\<open>df.attrs["source"] = s\<close>.
\<close>

record 'f pandas =
  read_csv :: "string \<Rightarrow> kwargs \<Rightarrow> string \<Rightarrow> exc + (string list \<times> 'f)"
  dropna_columns :: "'f \<Rightarrow> 'f"
  filter_columns :: "(string \<Rightarrow> bool) \<Rightarrow> 'f \<Rightarrow> 'f"
  index_name :: "'f \<Rightarrow> string option"
  datetime_index :: "string option \<Rightarrow> string \<Rightarrow> 'f \<Rightarrow> exc + 'f"
  tz_convert :: "string \<Rightarrow> 'f \<Rightarrow> exc + 'f"
  astype :: "dtype \<Rightarrow> 'f \<Rightarrow> (string \<times> string) list \<times> (exc + 'f)"
  warn_is_error :: "string \<Rightarrow> string \<Rightarrow> bool"
  concat_frames :: "'f list \<Rightarrow> exc + 'f"
  set_source :: "string \<Rightarrow> 'f \<Rightarrow> 'f"

text \<open>
  \<^verbatim>\<open>pd.concat\<close> on a list that may hold \<^verbatim>\<open>None\<close>: the \<^verbatim>\<open>None\<close> entries are dropped;
  an empty list and a list of \<^verbatim>\<open>None\<close> only raise \<^verbatim>\<open>ValueError\<close>.
\<close>

definition pd_concat :: "'f pandas \<Rightarrow> 'f option list \<Rightarrow> exc + 'f" where
  "pd_concat L frames =
     (if frames = [] then Inl (ValueError ''No objects to concatenate'')
      else case List.map_filter id frames of
             [] \<Rightarrow> Inl (ValueError ''All objects passed were None'')
           | f # fs \<Rightarrow> concat_frames L (f # fs))"

section \<open>Timezone detection\<close>

text \<open>
  \<^verbatim>\<open>\d\<close>: among the code points below 256 the decimal digits are \<^verbatim>\<open>0\<close> to \<^verbatim>\<open>9\<close>.
\<close>

definition is_digit :: "char \<Rightarrow> bool" where
  "is_digit c = (c \<in> set ''0123456789'')"

text \<open>
  \<^verbatim>\<open>re.search(r"UTC(\+\d+)", index_name)\<close>: the text of group 1 at the leftmost match,
  the plus sign and the longest run of digits after it.
\<close>

fun utc_search :: "string \<Rightarrow> string option" where
  "utc_search [] = None"
| "utc_search (c # cs) =
     (if startswith (c # cs) ''UTC+'' \<and> takeWhile is_digit (drop 4 (c # cs)) \<noteq> []
      then Some (CHR ''+'' # takeWhile is_digit (drop 4 (c # cs)))
      else utc_search cs)"

definition digits_value :: "string \<Rightarrow> nat" where
  "digits_value ds = foldl (\<lambda>a c. 10 * a + (of_char c - 48)) 0 ds"

text \<open>\<^verbatim>\<open>int(s)\<close> for an optional sign followed by digits.\<close>

fun py_int :: "string \<Rightarrow> int" where
  "py_int [] = 0"
| "py_int (c # cs) =
     (if c = CHR ''+'' then int (digits_value cs)
      else if c = CHR ''-'' then - int (digits_value cs)
      else int (digits_value (c # cs)))"

fun decimal :: "nat \<Rightarrow> string" where
  "decimal n =
     (if n < 10 then [''0123456789'' ! n]
      else decimal (n div 10) @ [''0123456789'' ! (n mod 10)])"

declare decimal.simps [simp del]

text \<open>How an f-string writes an integer.\<close>

definition py_str_int :: "int \<Rightarrow> string" where
  "py_str_int i = (if i < 0 then CHR ''-'' # decimal (nat (- i)) else decimal (nat i))"

text \<open>The zone name built from group 1: \<^verbatim>\<open>f"Etc/GMT{-int(m.group(1))}"\<close>.\<close>

definition fixed_zone :: "string \<Rightarrow> string" where
  "fixed_zone group1 = ''Etc/GMT'' @ py_str_int (- py_int group1)"

section \<open>Parsing one block\<close>

definition lower_ascii :: "char \<Rightarrow> char" where
  "lower_ascii c =
     (if 65 \<le> (of_char c :: nat) \<and> (of_char c :: nat) \<le> 90
      then char_of ((of_char c :: nat) + 32) else c)"

text \<open>
  \<^verbatim>\<open>warnings.filterwarnings(message="overflow", action="ignore")\<close>: the filter applies to
  a warning whose message starts with \<^verbatim>\<open>overflow\<close>, letter case ignored.
\<close>

definition overflow_filter :: "string \<Rightarrow> bool" where
  "overflow_filter msg = startswith (map lower_ascii msg) ''overflow''"

definition warning_exc :: "string \<Rightarrow> string \<Rightarrow> exc" where
  "warning_exc category msg =
     (if category = ''RuntimeWarning'' then RuntimeWarning msg else OtherError category msg)"

text \<open>
  The warnings issued during the cast, in order: one the overflow filter applies to is
  ignored; any other is left to the interpreter's filters, and is raised when they say
  so. The result is the first warning raised as an exception.
\<close>

fun cast_warnings :: "(string \<Rightarrow> string \<Rightarrow> bool) \<Rightarrow> (string \<times> string) list \<Rightarrow> exc option" where
  "cast_warnings is_error [] = None"
| "cast_warnings is_error (w # ws) =
     (if overflow_filter (snd w) then cast_warnings is_error ws
      else if is_error (fst w) (snd w) then Some (warning_exc (fst w) (snd w))
      else cast_warnings is_error ws)"

text \<open>
  The \<^verbatim>\<open>try\<close> around \<^verbatim>\<open>df.astype\<close>:
  \<^verbatim>\<open>except (ValueError, RuntimeWarning)\<close> logs an error and returns \<^verbatim>\<open>None\<close>.
\<close>

definition cast_failed ::
  "string \<Rightarrow> log_record list \<Rightarrow> exc \<Rightarrow> 'f option outcome \<times> log_record list" where
  "cast_failed source lg err =
     (if is_ValueError err \<or> is_RuntimeWarning err
      then (Returned None,
            lg @ [(ERROR, ''Failed converting data in '' @ source @ '': '' @ exc_message err)])
      else (Raised err, lg))"

definition cast_frame ::
  "'f pandas \<Rightarrow> dtype \<Rightarrow> string \<Rightarrow> log_record list \<Rightarrow> 'f \<Rightarrow>
   'f option outcome \<times> log_record list" where
  "cast_frame L dtype source lg df =
     (case cast_warnings (warn_is_error L) (fst (astype L dtype df)) of
        Some err \<Rightarrow> cast_failed source lg err
      | None \<Rightarrow>
          (case snd (astype L dtype df) of
             Inl err \<Rightarrow> cast_failed source lg err
           | Inr df' \<Rightarrow> (Returned (Some df'), lg)))"

text \<open>
  The zone the index is localized in, and the log after choosing it
  (\<^verbatim>\<open>_parse_frame\<close>, \<^verbatim>\<open>m = re.search(...)\<close> and the two branches on \<^verbatim>\<open>m\<close>).
\<close>

definition choose_tz ::
  "string \<Rightarrow> string \<Rightarrow> string \<Rightarrow> log_record list \<Rightarrow> string \<times> log_record list" where
  "choose_tz tz0 source name lg =
     (case utc_search name of
        Some group1 \<Rightarrow> (fixed_zone group1, lg)
      | None \<Rightarrow>
          (tz0,
           lg @ [(WARNING, ''Unable to detect time zone in '' @ source @ '', assuming '' @ tz0)]))"

text \<open>
  The timestamp part of \<^verbatim>\<open>_parse_frame\<close>, entered when
  \<^verbatim>\<open>self.csv_kwargs.get("parse_dates", None)\<close> is true. \<^verbatim>\<open>re.search\<close> raises
  \<^verbatim>\<open>TypeError\<close> on an index without a name.
\<close>

definition parse_timestamps ::
  "'f pandas \<Rightarrow> 'f parser \<Rightarrow> string \<Rightarrow> log_record list \<Rightarrow> 'f \<Rightarrow>
   'f option outcome \<times> log_record list" where
  "parse_timestamps L self source lg df =
     (case index_name L df of
        None \<Rightarrow> (Raised (TypeError ''expected string or bytes-like object''), lg)
      | Some name \<Rightarrow>
          (case datetime_index L (kw_date_format (csv_kwargs self))
                  (fst (choose_tz (default_tz self) source name lg)) df of
             Inl err \<Rightarrow> (Raised err, snd (choose_tz (default_tz self) source name lg))
           | Inr df1 \<Rightarrow>
               (case tz_convert L (default_tz self) df1 of
                  Inl err \<Rightarrow> (Raised err, snd (choose_tz (default_tz self) source name lg))
                | Inr df2 \<Rightarrow>
                    (case kw_dtype (csv_kwargs self) of
                       None \<Rightarrow>
                         (Returned (Some df2), snd (choose_tz (default_tz self) source name lg))
                     | Some dtype \<Rightarrow>
                         cast_frame L dtype source
                           (snd (choose_tz (default_tz self) source name lg)) df2))))"

text \<open>
  \<^verbatim>\<open>RobustCSVParser._parse_frame(data, source, logger)\<close>: what the call does and the
  records it logs. The first \<^verbatim>\<open>try\<close> catches \<^verbatim>\<open>ParserError\<close>, \<^verbatim>\<open>EmptyDataError\<close>
  and \<^verbatim>\<open>ValueError\<close>.
\<close>

definition parse_frame ::
  "'f pandas \<Rightarrow> 'f parser \<Rightarrow> string \<Rightarrow> string \<Rightarrow> 'f option outcome \<times> log_record list" where
  "parse_frame L self data source =
     (case read_csv L (sep self) (read_kwargs (csv_kwargs self)) data of
        Inl err \<Rightarrow>
          if is_ValueError err
          then (Returned None,
                [(ERROR, ''Failed reading file '' @ source @ '': '' @ exc_message err)])
          else (Raised err, [])
      | Inr r \<Rightarrow>
          if kw_parse_dates (csv_kwargs self) = Some True
          then parse_timestamps L self source (map (Pair WARNING) (fst r))
                 (filter_columns L (snd (column_regex self)) (dropna_columns L (snd r)))
          else (Returned
                  (Some (filter_columns L (snd (column_regex self)) (dropna_columns L (snd r)))),
                map (Pair WARNING) (fst r)))"

section \<open>Parsing a document\<close>

text \<open>
  The \<^verbatim>\<open>with\<close> block of \<^verbatim>\<open>parse\<close>: when neither a header string nor a header regex is
  set, the first field of the first line is stored in \<^verbatim>\<open>self.header_string\<close>
  (\<^verbatim>\<open>str.split\<close> raises \<^verbatim>\<open>ValueError\<close> on an empty separator, before the assignment);
  then the whole text is read and its NUL characters removed. The result is the parser
  object after the block and \<^verbatim>\<open>data\<close>.
\<close>

definition read_data :: "'f parser \<Rightarrow> string \<Rightarrow> exc + ('f parser \<times> string)" where
  "read_data self raw =
     (if header_string self = None \<and> header_regex self = None
      then (if sep self = [] then Inl (ValueError ''empty separator'')
            else Inr (self\<lparr> header_string := Some (first_field (sep self) (readline raw)) \<rparr>,
                      strip_nul raw))
      else Inr (self, strip_nul raw))"

text \<open>
  The group of the compiled pattern,
  \<^verbatim>\<open>self.header_regex or re.escape(self.header_string)\<close>: \<^verbatim>\<open>re.escape(None)\<close> raises
  \<^verbatim>\<open>TypeError\<close>.
\<close>

definition escaped_header :: "'f parser \<Rightarrow> exc + matcher" where
  "escaped_header self =
     (case header_string self of
        None \<Rightarrow> Inl (TypeError ''expected string or bytes-like object'')
      | Some s \<Rightarrow> Inr (literal s))"

definition header_group :: "'f parser \<Rightarrow> exc + matcher" where
  "header_group self =
     (case header_regex self of
        None \<Rightarrow> escaped_header self
      | Some r \<Rightarrow> if fst r = [] then escaped_header self else Inr (snd r))"

text \<open>
  The texts handed to \<^verbatim>\<open>_parse_frame\<close> by the loop
  \<^verbatim>\<open>for start in [match.start() for match in headerrow_finder] + [None]\<close>, in order:
  \<^verbatim>\<open>data[slice(start_prev, start)]\<close>, with \<^verbatim>\<open>start_prev = start\<close> after each.
\<close>

fun segment :: "string \<Rightarrow> nat \<Rightarrow> nat list \<Rightarrow> string list" where
  "segment data start_prev [] = [py_slice data start_prev None]"
| "segment data start_prev (start # starts) =
     py_slice data start_prev (Some start) # segment data start starts"

text \<open>The loop body, \<^verbatim>\<open>frames.append(self._parse_frame(...))\<close>, over those texts.\<close>

fun parse_frames ::
  "'f pandas \<Rightarrow> 'f parser \<Rightarrow> string \<Rightarrow> string list \<Rightarrow>
   'f option list outcome \<times> log_record list" where
  "parse_frames L self source [] = (Returned [], [])"
| "parse_frames L self source (b # bs) =
     (case parse_frame L self b source of
        (Raised err, lg) \<Rightarrow> (Raised err, lg)
      | (Returned frame, lg) \<Rightarrow>
          (case parse_frames L self source bs of
             (Raised err, lg') \<Rightarrow> (Raised err, lg @ lg')
           | (Returned frames, lg') \<Rightarrow> (Returned (frame # frames), lg @ lg')))"

text \<open>
  The end of \<^verbatim>\<open>parse\<close>, from \<^verbatim>\<open>pd.concat\<close> on: \<^verbatim>\<open>except ValueError\<close> around the
  concatenation, the \<^verbatim>\<open>source\<close> attribute, and \<^verbatim>\<open>process_func\<close> under
  \<^verbatim>\<open>except Exception\<close>.
\<close>

definition join_frames ::
  "'f pandas \<Rightarrow> 'f parser \<Rightarrow> string \<Rightarrow> log_record list \<Rightarrow> 'f option list \<Rightarrow>
   'f option outcome \<times> log_record list" where
  "join_frames L self source lg frames =
     (case pd_concat L frames of
        Inl err \<Rightarrow>
          if is_ValueError err
          then (Returned None, lg @ [(ERROR, ''All empty data in '' @ source)])
          else (Raised err, lg)
      | Inr df \<Rightarrow>
          (case process_func self of
             None \<Rightarrow> (Returned (Some (set_source L source df)), lg)
           | Some f \<Rightarrow>
               (case f (set_source L source df) of
                  Inl err \<Rightarrow>
                    (Returned None,
                     lg @ [(ERROR, ''Unable to process file '' @ source @ '': '' @ exc_message err)])
                | Inr result \<Rightarrow> (Returned result, lg))))"

text \<open>
  \<^verbatim>\<open>parse\<close> after the \<^verbatim>\<open>with\<close> block: header search, the loop over the blocks and
  the join.
\<close>

definition parse_data ::
  "'f pandas \<Rightarrow> 'f parser \<Rightarrow> string \<Rightarrow> string \<Rightarrow> 'f option outcome \<times> log_record list" where
  "parse_data L self source data =
     (case header_group self of
        Inl err \<Rightarrow> (Raised err, [])
      | Inr g \<Rightarrow>
          (case header_starts g data of
             [] \<Rightarrow> (Returned None, [(ERROR, ''No header found in '' @ source)])
           | start_prev # starts \<Rightarrow>
               (case parse_frames L self source (segment data start_prev starts) of
                  (Raised err, lg) \<Rightarrow> (Raised err, lg)
                | (Returned frames, lg) \<Rightarrow> join_frames L self source lg frames)))"

text \<open>
  \<^verbatim>\<open>RobustCSVParser.parse(filepath_or_buffer)\<close> on a document with the name
  \<open>source\<close> and the text \<open>raw\<close>: the parser object after the call, what the call does, and
  the records it logs (the first is \<^verbatim>\<open>logger.info("Reading file %s", ...)\<close>).
\<close>

definition parse ::
  "'f pandas \<Rightarrow> 'f parser \<Rightarrow> string \<Rightarrow> string \<Rightarrow>
   'f parser \<times> 'f option outcome \<times> log_record list" where
  "parse L self source raw =
     (case read_data self raw of
        Inl err \<Rightarrow> (self, Raised err, [(INFO, ''Reading file '' @ source)])
      | Inr r \<Rightarrow>
          (fst r,
           fst (parse_data L (fst r) source (snd r)),
           (INFO, ''Reading file '' @ source) # snd (parse_data L (fst r) source (snd r))))"

section \<open>Parsing several documents\<close>

text \<open>
  A document is its name and its text. \<open>parse_each\<close> is
  \<^verbatim>\<open>map(self.parse, filepaths)\<close> consumed to its end: the calls run in order on the same
  object.
\<close>

fun parse_each ::
  "'f pandas \<Rightarrow> 'f parser \<Rightarrow> (string \<times> string) list \<Rightarrow>
   'f parser \<times> 'f option list outcome \<times> log_record list" where
  "parse_each L self [] = (self, Returned [], [])"
| "parse_each L self (d # ds) =
     (case parse L self (fst d) (snd d) of
        (self', Raised err, lg) \<Rightarrow> (self', Raised err, lg)
      | (self', Returned frame, lg) \<Rightarrow>
          (case parse_each L self' ds of
             (self'', Raised err, lg') \<Rightarrow> (self'', Raised err, lg @ lg')
           | (self'', Returned frames, lg') \<Rightarrow> (self'', Returned (frame # frames), lg @ lg')))"




section \<open>The table library on plain delimited text\<close>

text \<open>
  A frame holds the name of its index, the index labels, the zone its index is shown in,
  its columns in order (a name and one cell per row) and its \<^verbatim>\<open>source\<close> attribute.
  A cell is the token read from the text, or \<open>None\<close> for a null; the conversion of tokens
  to numbers is not modelled. An index label is a position of the default
  \<^verbatim>\<open>RangeIndex\<close>, a token of the index column, or a timestamp: the token, read as a
  wall-clock time in the zone it was localized in.
\<close>

datatype label = Pos nat | Key "string option" | Stamp "string option" string

record frame =
  idx_name :: "string option"
  idx :: "label list"
  idx_tz :: "string option"
  cols :: "(string \<times> string option list) list"
  attrs_source :: "string option"

text \<open>\<^verbatim>\<open>s.split(d)\<close> for a single character \<open>d\<close>.\<close>

fun split_on :: "char \<Rightarrow> string \<Rightarrow> string list" where
  "split_on d [] = [[]]"
| "split_on d (c # cs) =
     (if c = d then [] # split_on d cs
      else (case split_on d cs of [] \<Rightarrow> [[c]] | f # fs \<Rightarrow> (c # f) # fs))"

text \<open>The tokens \<^verbatim>\<open>read_csv\<close> reads as null by default.\<close>

definition na_values :: "string list" where
  "na_values = ['''', ''#N/A'', ''#N/A N/A'', ''#NA'', ''-1.#IND'', ''-1.#QNAN'', ''-NaN'',
     ''-nan'', ''1.#IND'', ''1.#QNAN'', ''<NA>'', ''N/A'', ''NA'', ''NULL'', ''NaN'', ''None'',
     ''n/a'', ''nan'', ''null'']"

definition cell :: "string \<Rightarrow> string option" where
  "cell tok = (if tok \<in> set na_values then None else Some tok)"

text \<open>
  The texts the model reads. The separator is one character of ASCII, not a double
  quote, a carriage return, a line feed, a space or a tab. The text holds no double quote
  (the quote character of \<^verbatim>\<open>read_csv\<close>: quoting is not modelled), no carriage return
  (Python's text mode has turned every line ending into a line feed) and no NUL
  (\<^verbatim>\<open>parse\<close> has removed them). Lines that are empty or hold only spaces and tabs are
  skipped, as the tokenizer of \<^verbatim>\<open>read_csv\<close> skips them. The column names of the first
  remaining line are non-empty and distinct (\<^verbatim>\<open>read_csv\<close> would rename them
  otherwise); every later line has as many fields as the first; and \<^verbatim>\<open>index_col\<close>,
  when given, is the position of a column. On any other input \<open>plain_read_csv\<close> answers
  \<open>not_modelled\<close>, and nothing is stated about it, with one exception: a text that opens
  with a double quote and holds no second one is a quoted field that never ends, for
  which the tokenizer raises \<^verbatim>\<open>ParserError\<close>.
\<close>

definition plain_char :: "char \<Rightarrow> bool" where
  "plain_char c = (c \<noteq> CHR 0x22 \<and> c \<noteq> CHR 0x0D \<and> c \<noteq> NUL)"

definition plain_sep :: "string \<Rightarrow> bool" where
  "plain_sep sp =
     (length sp = 1 \<and> (of_char (hd sp) :: nat) < 128
      \<and> hd sp \<notin> set [CHR 0x22, CHR 0x0D, newline, CHR 0x20, CHR 0x09])"

definition blank_line :: "string \<Rightarrow> bool" where
  "blank_line l = list_all (\<lambda>c. c = CHR 0x20 \<or> c = CHR 0x09) l"

definition csv_lines :: "string \<Rightarrow> string list" where
  "csv_lines text = filter (\<lambda>l. \<not> blank_line l) (split_on newline text)"

definition unterminated_quote :: "string \<Rightarrow> bool" where
  "unterminated_quote text =
     (case text of [] \<Rightarrow> False | c # cs \<Rightarrow> c = CHR 0x22 \<and> CHR 0x22 \<notin> set cs)"

definition plain_csv :: "string \<Rightarrow> kwargs \<Rightarrow> string \<Rightarrow> bool" where
  "plain_csv sp kw text =
     (plain_sep sp
      \<and> list_all plain_char text
      \<and> (case csv_lines text of
            [] \<Rightarrow> True
          | header # rows \<Rightarrow>
              list_all (\<lambda>n. n \<noteq> []) (split_on (hd sp) header)
              \<and> distinct (split_on (hd sp) header)
              \<and> list_all (\<lambda>r. length (split_on (hd sp) r) = length (split_on (hd sp) header)) rows
              \<and> (case kw_index_col kw of
                    None \<Rightarrow> True
                  | Some k \<Rightarrow> k < length (split_on (hd sp) header))))"

definition not_modelled :: exc where
  "not_modelled = OtherError ''NotModelled'' ''input outside the modelled texts''"

text \<open>Column \<open>k\<close> of the rows: its name and its cells.\<close>

definition column_at :: "string list \<Rightarrow> string list list \<Rightarrow> nat \<Rightarrow> string \<times> string option list" where
  "column_at names table k = (names ! k, map (\<lambda>r. cell (r ! k)) table)"

definition build_frame :: "nat option \<Rightarrow> string list \<Rightarrow> string list list \<Rightarrow> frame" where
  "build_frame index_col names table =
     (case index_col of
        None \<Rightarrow>
          \<lparr> idx_name = None,
            idx = map Pos [0..<length table],
            idx_tz = None,
            cols = map (column_at names table) [0..<length names],
            attrs_source = None \<rparr>
      | Some k \<Rightarrow>
          \<lparr> idx_name = Some (names ! k),
            idx = map (\<lambda>r. Key (cell (r ! k))) table,
            idx_tz = None,
            cols = map (column_at names table) (filter (\<lambda>j. j \<noteq> k) [0..<length names]),
            attrs_source = None \<rparr>)"

text \<open>
  \<^verbatim>\<open>read_csv\<close> with \<^verbatim>\<open>header=0\<close>: blank lines are skipped, the first remaining line
  names the columns, the others are the rows; a text without any line raises
  \<^verbatim>\<open>EmptyDataError\<close>. No warning is recorded on these texts.
\<close>

definition plain_read_csv :: "string \<Rightarrow> kwargs \<Rightarrow> string \<Rightarrow> exc + (string list \<times> frame)" where
  "plain_read_csv sp kw text =
     (if plain_sep sp \<and> unterminated_quote text
      then Inl (ParserError
             ''Error tokenizing data. C error: EOF inside string starting at row 0'')
      else if \<not> plain_csv sp kw text then Inl not_modelled
      else case csv_lines text of
             [] \<Rightarrow> Inl (EmptyDataError ''No columns to parse from file'')
           | header # rows \<Rightarrow>
               Inr ([], build_frame (kw_index_col kw) (split_on (hd sp) header)
                          (map (split_on (hd sp)) rows)))"

text \<open>
  \<^verbatim>\<open>dropna(axis=1, how="all")\<close> keeps the columns with at least one cell that is not
  null, so a frame without rows keeps no column.
\<close>

definition plain_dropna :: "frame \<Rightarrow> frame" where
  "plain_dropna f = f\<lparr> cols := filter (\<lambda>c. list_ex (\<lambda>v. v \<noteq> None) (snd c)) (cols f) \<rparr>"

definition plain_filter :: "(string \<Rightarrow> bool) \<Rightarrow> frame \<Rightarrow> frame" where
  "plain_filter keep f = f\<lparr> cols := filter (\<lambda>c. keep (fst c)) (cols f) \<rparr>"

fun label_text :: "label \<Rightarrow> string option" where
  "label_text (Pos n) = Some (decimal n)"
| "label_text (Key t) = t"
| "label_text (Stamp t z) = t"

text \<open>
  The names of the time zones are a table of the tz database, outside the program:
  \<open>zones\<close> tells whether the database has a name. Building an index in a zone, and
  converting to one, raise an error for a name the database lacks. Localizing keeps
  each label's text and records the zone; converting changes the zone the index is shown
  in and no instant. A wall-clock time that a zone with daylight saving lacks or has
  twice is not modelled: the timestamps stay symbolic.
\<close>

definition unknown_zone :: "string \<Rightarrow> exc" where
  "unknown_zone tz = OtherError ''UnknownTimeZoneError'' tz"

definition plain_datetime_index ::
  "(string \<Rightarrow> bool) \<Rightarrow> string option \<Rightarrow> string \<Rightarrow> frame \<Rightarrow> exc + frame" where
  "plain_datetime_index zones fmt tz f =
     (if zones tz
      then Inr (f\<lparr> idx := map (\<lambda>l. Stamp (label_text l) tz) (idx f), idx_tz := Some tz \<rparr>)
      else Inl (unknown_zone tz))"

definition plain_tz_convert :: "(string \<Rightarrow> bool) \<Rightarrow> string \<Rightarrow> frame \<Rightarrow> exc + frame" where
  "plain_tz_convert zones tz f =
     (if zones tz then Inr (f\<lparr> idx_tz := Some tz \<rparr>) else Inl (unknown_zone tz))"

text \<open>
  \<^verbatim>\<open>df.astype(dtype)\<close>. With a mapping, a key that is not the name of a column raises
  \<^verbatim>\<open>KeyError\<close>, before any value is converted. The conversion of values is not
  modelled: a frame without cells is returned as it is, and the cast of a frame with
  cells is outside the model.
\<close>

definition missing_column :: "string \<Rightarrow> exc" where
  "missing_column k =
     OtherError ''KeyError''
       (''Only a column name can be used for the key in a dtype mappings argument. ''
        @ [CHR 0x27] @ k @ [CHR 0x27] @ '' not found in columns.'')"

definition cast_cells :: "frame \<Rightarrow> (string \<times> string) list \<times> (exc + frame)" where
  "cast_cells f =
     (if list_all (\<lambda>c. snd c = []) (cols f) then ([], Inr f) else ([], Inl not_modelled))"

definition plain_astype :: "dtype \<Rightarrow> frame \<Rightarrow> (string \<times> string) list \<times> (exc + frame)" where
  "plain_astype dt f =
     (case dt of
        AllColumns t \<Rightarrow> cast_cells f
      | PerColumn m \<Rightarrow>
          (case filter (\<lambda>k. k \<notin> set (map fst (cols f))) (map fst m) of
             [] \<Rightarrow> cast_cells f
           | k # ks \<Rightarrow> ([], Inl (missing_column k))))"

text \<open>The value shared by all entries, \<open>None\<close> when they differ.\<close>

fun common :: "'a option list \<Rightarrow> 'a option" where
  "common [] = None"
| "common (x # xs) = (if list_all (\<lambda>y. y = x) xs then x else None)"

text \<open>
  \<^verbatim>\<open>pd.concat(frames, join="outer")\<close>: the rows in order, the columns in the order of
  their first appearance, null where a frame lacks a column.
\<close>

definition column_names :: "frame list \<Rightarrow> string list" where
  "column_names fs = rev (remdups (rev (concat (map (\<lambda>f. map fst (cols f)) fs))))"

definition column_cells :: "string \<Rightarrow> frame \<Rightarrow> string option list" where
  "column_cells c f =
     (case map_of (cols f) c of
        Some cells \<Rightarrow> cells
      | None \<Rightarrow> replicate (length (idx f)) None)"

definition plain_concat :: "frame list \<Rightarrow> exc + frame" where
  "plain_concat fs =
     Inr \<lparr> idx_name = common (map idx_name fs),
           idx = concat (map idx fs),
           idx_tz = common (map idx_tz fs),
           cols = map (\<lambda>c. (c, concat (map (column_cells c) fs))) (column_names fs),
           attrs_source = common (map attrs_source fs) \<rparr>"

text \<open>
  The library on plain texts, for a table \<open>zones\<close> of zone names. The interpreter's
  warning filters raise nothing.
\<close>

definition plain_pandas_on :: "(string \<Rightarrow> bool) \<Rightarrow> frame pandas" where
  "plain_pandas_on zones =
     \<lparr> read_csv = plain_read_csv,
       dropna_columns = plain_dropna,
       filter_columns = plain_filter,
       index_name = idx_name,
       datetime_index = plain_datetime_index zones,
       tz_convert = plain_tz_convert zones,
       astype = plain_astype,
       warn_is_error = (\<lambda>category msg. False),
       concat_frames = plain_concat,
       set_source = (\<lambda>s f. f\<lparr> attrs_source := Some s \<rparr>) \<rparr>"

text \<open>
  Some names of the tz database, for the examples: \<^verbatim>\<open>UTC\<close>, \<^verbatim>\<open>Europe/Helsinki\<close> and
  all its names of the form \<^verbatim>\<open>Etc/GMT...\<close>, which end at \<^verbatim>\<open>Etc/GMT-14\<close> and
  \<^verbatim>\<open>Etc/GMT+12\<close>.
\<close>

definition sample_zones :: "string \<Rightarrow> bool" where
  "sample_zones tz =
     (tz \<in> set [''UTC'', ''Europe/Helsinki'', ''Etc/GMT'', ''Etc/GMT0'', ''Etc/GMT-0'',
        ''Etc/GMT+0'', ''Etc/GMT-1'', ''Etc/GMT-2'', ''Etc/GMT-3'', ''Etc/GMT-4'', ''Etc/GMT-5'',
        ''Etc/GMT-6'', ''Etc/GMT-7'', ''Etc/GMT-8'', ''Etc/GMT-9'', ''Etc/GMT-10'',
        ''Etc/GMT-11'', ''Etc/GMT-12'', ''Etc/GMT-13'', ''Etc/GMT-14'', ''Etc/GMT+1'',
        ''Etc/GMT+2'', ''Etc/GMT+3'', ''Etc/GMT+4'', ''Etc/GMT+5'', ''Etc/GMT+6'', ''Etc/GMT+7'',
        ''Etc/GMT+8'', ''Etc/GMT+9'', ''Etc/GMT+10'', ''Etc/GMT+11'', ''Etc/GMT+12''])"

definition plain_pandas :: "frame pandas" where
  "plain_pandas = plain_pandas_on sample_zones"

text \<open>
  Two variants of the library on plain texts, for a cast that meets a value too large
  for the target type. In the first the cast issues NumPy's warning
  \<^verbatim>\<open>RuntimeWarning: overflow encountered in cast\<close> and goes on; \<open>strict\<close> says whether
  the interpreter turns warnings into exceptions. In the second the cast raises
  \<^verbatim>\<open>OverflowError\<close>.
\<close>

definition overflow_warning_pandas :: "bool \<Rightarrow> frame pandas" where
  "overflow_warning_pandas strict =
     plain_pandas\<lparr> astype := (\<lambda>dtype f. ([(''RuntimeWarning'', ''overflow encountered in cast'')], Inr f)),
                   warn_is_error := (\<lambda>category msg. strict) \<rparr>"

definition overflow_error_pandas :: "frame pandas" where
  "overflow_error_pandas =
     plain_pandas\<lparr> astype := (\<lambda>dtype f.
       ([], Inl (OtherError ''OverflowError'' ''Python int too large to convert to C long''))) \<rparr>"

section \<open>Properties of the block segmenter\<close>

lemma segment_length: "length (segment data a os) = Suc (length os)"
  by (induction os arbitrary: a) simp_all

lemma segment_nth:
  "i \<le> length os \<Longrightarrow>
   segment data a os ! i =
     py_slice data ((a # os) ! i) (if i < length os then Some (os ! i) else None)"
proof (induction os arbitrary: a i)
  case Nil
  then show ?case by simp
next
  case (Cons b os)
  show ?case
  proof (cases i)
    case 0
    then show ?thesis by simp
  next
    case (Suc j)
    with Cons.prems have "j \<le> length os" by simp
    from Cons.IH [OF this, of b] Suc show ?thesis by simp
  qed
qed

lemma segment_concat: "sorted (a # os) \<Longrightarrow> concat (segment data a os) = drop a data"
proof (induction os arbitrary: a)
  case Nil
  then show ?case by (simp add: py_slice_def)
next
  case (Cons b os)
  then have ab: "a \<le> b" and "sorted (b # os)" by simp_all
  with Cons.IH have "concat (segment data b os) = drop b data" by simp
  moreover have "drop b data = drop (b - a) (drop a data)" using ab by simp
  ultimately have "concat (segment data a (b # os))
      = take (b - a) (drop a data) @ drop (b - a) (drop a data)"
    by (simp only: segment.simps concat.simps py_slice_def option.case)
  then show ?case by (simp only: append_take_drop_id)
qed

lemma finditer_None: "search g data pos m = None \<Longrightarrow> finditer g data pos m = []"
  by (simp add: finditer.simps [of g data pos m])

lemma finditer_Some:
  "search g data pos m = Some (s, e) \<Longrightarrow>
   finditer g data pos m = (s, e) # finditer g data e (e = s)"
  by (simp add: finditer.simps [of g data pos m])

lemma finditer_starts:
  "sorted (map fst (finditer g data pos m)) \<and>
   (\<forall>x \<in> set (finditer g data pos m). pos \<le> fst x \<and> fst x \<le> snd x \<and> snd x \<le> length data)"
proof (induction g data pos m rule: finditer.induct)
  case (1 g data pos m)
  show ?case
  proof (cases "search g data pos m")
    case None
    then show ?thesis by (simp add: finditer_None)
  next
    case (Some x)
    obtain s e where x: "x = (s, e)" by (cases x)
    from Some x have se: "search g data pos m = Some (s, e)" by simp
    from search_Some [OF se] have b: "pos \<le> s" "s \<le> e" "e \<le> length data" by simp_all
    from "1.IH" [OF Some x [symmetric]]
    have ih: "sorted (map fst (finditer g data e (e = s)))"
      "\<forall>x \<in> set (finditer g data e (e = s)). e \<le> fst x \<and> fst x \<le> snd x \<and> snd x \<le> length data"
      by simp_all
    from b ih show ?thesis unfolding finditer_Some [OF se] by fastforce
  qed
qed

lemma header_starts_sorted: "sorted (header_starts g data)"
  using finditer_starts [of g data 0 False] by (simp add: header_starts_def)

lemma header_starts_le: "s \<in> set (header_starts g data) \<Longrightarrow> s \<le> length data"
  using finditer_starts [of g data 0 False] by (auto simp: header_starts_def)

lemma parse_frames_length:
  "parse_frames L self src bs = (Returned fs, lg) \<Longrightarrow> length fs = length bs"
proof (induction bs arbitrary: fs lg)
  case Nil
  then show ?case by simp
next
  case (Cons b bs)
  obtain r lg1 where pf: "parse_frame L self b src = (r, lg1)"
    by (cases "parse_frame L self b src")
  obtain rs lg2 where pfs: "parse_frames L self src bs = (rs, lg2)"
    by (cases "parse_frames L self src bs")
  from Cons.prems pf pfs obtain f fs' where "r = Returned f" "rs = Returned fs'" "fs = f # fs'"
    by (cases r; cases rs) auto
  with Cons.IH pfs show ?case by simp
qed

section \<open>Properties of the header locator\<close>

lemma group_ends_literal:
  "e' \<in> set (group_ends (literal m) data p) \<Longrightarrow> startswith (drop p data) m \<and> e' = p + length m"
  by (auto simp: group_ends_def literal_def split: if_splits)

lemma line_end_is_end:
  assumes "e' \<le> length data"
  shows "line_end data e' = length data \<or> data ! line_end data e' = newline"
proof -
  let ?xs = "drop e' data"
  let ?n = "length (takeWhile (\<lambda>c. c \<noteq> newline) ?xs)"
  show ?thesis
  proof (cases "?n < length ?xs")
    case True
    from nth_length_takeWhile [OF True] have "?xs ! ?n = newline" by simp
    moreover have "?xs ! ?n = data ! (e' + ?n)" using True assms by simp
    ultimately show ?thesis by (simp add: line_end_def)
  next
    case False
    have "?n \<le> length ?xs" by (rule length_takeWhile_le)
    with False have "?n = length ?xs" by simp
    with assms show ?thesis by (simp add: line_end_def)
  qed
qed

lemma header_ends_shape:
  assumes "e \<in> set (header_ends g data s)"
  shows "\<exists>e'. e = line_end data e' \<and> e' \<le> length data \<and>
           (e' \<in> set (group_ends g data s)
            \<or> (s < length data \<and> is_quote (data ! s) \<and> e' \<in> set (group_ends g data (Suc s))))"
  using assms by (auto simp: header_ends_def group_ends_def split: if_splits)

lemma finditer_member:
  "(s, e) \<in> set (finditer g data pos m) \<Longrightarrow> e \<in> set (header_ends g data s)"
proof (induction g data pos m rule: finditer.induct)
  case (1 g data pos m)
  show ?case
  proof (cases "search g data pos m")
    case None
    with "1.prems" show ?thesis by (simp add: finditer_None)
  next
    case (Some x)
    obtain s' e' where x: "x = (s', e')" by (cases x)
    from Some x have se: "search g data pos m = Some (s', e')" by simp
    from "1.prems" have "(s, e) = (s', e') \<or> (s, e) \<in> set (finditer g data e' (e' = s'))"
      unfolding finditer_Some [OF se] by simp
    then show ?thesis
    proof
      assume "(s, e) = (s', e')"
      with search_Some [OF se] show ?thesis by simp
    next
      assume "(s, e) \<in> set (finditer g data e' (e' = s'))"
      from "1.IH" [OF Some x [symmetric] this] show ?thesis .
    qed
  qed
qed

lemma match_at_complete:
  assumes "e \<in> set (header_ends g data p)" and "\<not> (m \<and> e = p)"
  shows "match_at g data p m \<noteq> None"
  using assms unfolding match_at_def by (auto simp: find_None_iff)

lemma search_complete:
  "pos \<le> p \<Longrightarrow> p \<le> length data \<Longrightarrow> e \<in> set (header_ends g data p) \<Longrightarrow>
   \<not> (m \<and> p = pos \<and> e = p) \<Longrightarrow>
   \<exists>s e'. search g data pos m = Some (s, e') \<and> s \<le> p"
proof (induction g data pos m rule: search.induct)
  case (1 g data pos m)
  from "1.prems" have nl: "\<not> length data < pos" by simp
  show ?case
  proof (cases "match_at g data pos m")
    case (Some e')
    with nl have "search g data pos m = Some (pos, e')"
      by (simp add: search.simps [of g data pos m])
    with "1.prems" show ?thesis by auto
  next
    case None
    have "p \<noteq> pos"
    proof
      assume "p = pos"
      with "1.prems" have "e \<in> set (header_ends g data pos)" "\<not> (m \<and> e = pos)" by auto
      from match_at_complete [OF this] None show False by simp
    qed
    with "1.prems" have "Suc pos \<le> p" by simp
    from "1.IH" [OF nl None this "1.prems"(2) "1.prems"(3)]
    obtain s e' where "search g data (Suc pos) False = Some (s, e')" "s \<le> p" by auto
    moreover from nl None have "search g data pos m = search g data (Suc pos) False"
      by (simp add: search.simps [of g data pos m])
    ultimately show ?thesis by auto
  qed
qed

lemma finditer_covers:
  "pos \<le> p \<Longrightarrow> p \<le> length data \<Longrightarrow> e \<in> set (header_ends g data p) \<Longrightarrow>
   \<not> (m \<and> p = pos \<and> e = p) \<Longrightarrow>
   \<exists>x \<in> set (finditer g data pos m). fst x \<le> p \<and> p \<le> snd x"
proof (induction g data pos m arbitrary: e rule: finditer.induct)
  case (1 g data pos m)
  from search_complete [OF "1.prems"]
  obtain s e' where se: "search g data pos m = Some (s, e')" and sp: "s \<le> p" by auto
  show ?case
  proof (cases "p \<le> e'")
    case True
    with sp show ?thesis unfolding finditer_Some [OF se] by simp
  next
    case False
    then have "e' \<le> p" "\<not> (e' = s \<and> p = e' \<and> e = p)" by simp_all
    from "1.IH" [OF se refl this(1) "1.prems"(2) "1.prems"(3) this(2)]
    show ?thesis unfolding finditer_Some [OF se] by auto
  qed
qed

section \<open>Properties of the parser object\<close>

lemma parse_unfold:
  "read_data self raw = Inr (self', data) \<Longrightarrow>
   parse L self source raw =
     (self', fst (parse_data L self' source data),
      (INFO, ''Reading file '' @ source) # snd (parse_data L self' source data))"
  by (simp add: parse_def)

lemma read_data_configured:
  "header_string self \<noteq> None \<or> header_regex self \<noteq> None \<Longrightarrow>
   read_data self raw = Inr (self, strip_nul raw)"
  by (auto simp: read_data_def)

lemma strip_nul_idem: "strip_nul (strip_nul raw) = strip_nul raw"
  by (simp add: strip_nul_def)

lemma parse_strip_nul_configured:
  "header_string self \<noteq> None \<or> header_regex self \<noteq> None \<Longrightarrow>
   parse L self source (strip_nul raw) = parse L self source raw"
  by (simp add: parse_unfold [OF read_data_configured] strip_nul_idem)








section \<open>Properties of the timezone detection\<close>


lemma startswith_prefix [simp]: "startswith (p @ s) p"
  by (induction p) simp_all














section \<open>Properties of the cast and of header-only blocks\<close>

lemma cast_warnings_None:
  "list_all (\<lambda>w. overflow_filter (snd w) \<or> \<not> is_error (fst w) (snd w)) ws \<Longrightarrow>
   cast_warnings is_error ws = None"
  by (induction ws) auto

lemma read_kwargs_index_col [simp]: "kw_index_col (read_kwargs kw) = kw_index_col kw"
  by (simp add: read_kwargs_def)












section \<open>Claims\<close>

text \<open>
  Claim C1. When the header pattern matches a document \<open>K \<ge> 1\<close> times, at the offsets
  \<open>start # starts\<close>, \<^verbatim>\<open>parse\<close> calls \<^verbatim>\<open>_parse_frame\<close> on exactly \<open>K\<close> blocks and
  collects \<open>K\<close> frames: block \<open>i\<close> is the text from offset \<open>i\<close> up to the next offset, the
  last block runs to the end of the document, the offsets are in order and inside the
  document, the blocks put together are the document from the first match on (so no
  text before the first match is in any block), and with one match the only block is the
  text from that match to the end.
\<close>

theorem blocks_partition_document:
  assumes "header_group self = Inr g"
    and "header_starts g data = start # starts"
  shows "parse_data L self source data =
           (case parse_frames L self source (segment data start starts) of
              (Raised err, lg) \<Rightarrow> (Raised err, lg)
            | (Returned frames, lg) \<Rightarrow> join_frames L self source lg frames)
         \<and> (\<forall>frames lg. parse_frames L self source (segment data start starts) = (Returned frames, lg)
               \<longrightarrow> length frames = length (start # starts))
         \<and> length (segment data start starts) = length (start # starts)
         \<and> (\<forall>i < length (start # starts).
               segment data start starts ! i =
                 take ((if Suc i < length (start # starts) then (start # starts) ! Suc i
                        else length data) - (start # starts) ! i)
                   (drop ((start # starts) ! i) data))
         \<and> sorted (start # starts)
         \<and> (\<forall>s \<in> set (start # starts). s \<le> length data)
         \<and> concat (segment data start starts) = drop start data
         \<and> (starts = [] \<longrightarrow> segment data start starts = [drop start data])"
proof -
  have a: "parse_data L self source data =
           (case parse_frames L self source (segment data start starts) of
              (Raised err, lg) \<Rightarrow> (Raised err, lg)
            | (Returned frames, lg) \<Rightarrow> join_frames L self source lg frames)"
    using assms by (simp add: parse_data_def)
  have b: "\<forall>frames lg. parse_frames L self source (segment data start starts) = (Returned frames, lg)
               \<longrightarrow> length frames = length (start # starts)"
    by (auto dest: parse_frames_length simp: segment_length)
  have c: "length (segment data start starts) = length (start # starts)"
    by (simp add: segment_length)
  have srt: "sorted (start # starts)"
    using header_starts_sorted [of g data] assms(2) by simp
  have le: "\<forall>s \<in> set (start # starts). s \<le> length data"
    using header_starts_le [of _ g data] assms(2) by simp
  have d: "\<forall>i < length (start # starts).
               segment data start starts ! i =
                 take ((if Suc i < length (start # starts) then (start # starts) ! Suc i
                        else length data) - (start # starts) ! i)
                   (drop ((start # starts) ! i) data)"
  proof (intro allI impI)
    fix i assume "i < length (start # starts)"
    then have i: "i \<le> length starts" by simp
    show "segment data start starts ! i =
                 take ((if Suc i < length (start # starts) then (start # starts) ! Suc i
                        else length data) - (start # starts) ! i)
                   (drop ((start # starts) ! i) data)"
      unfolding segment_nth [OF i] by (simp add: py_slice_def)
  qed
  have e: "concat (segment data start starts) = drop start data"
    using srt by (rule segment_concat)
  have f: "starts = [] \<longrightarrow> segment data start starts = [drop start data]"
    by (simp add: py_slice_def)
  from a b c d srt le e f show ?thesis by blast
qed

theorem blocks_partition_document_witness:
  "header_starts (literal ''Time'') ''junk\<newline>Time,A,B\<newline>t1,1,2\<newline>Time,A,C\<newline>t3,5,6\<newline>'' = [5, 21]
   \<and> segment ''junk\<newline>Time,A,B\<newline>t1,1,2\<newline>Time,A,C\<newline>t3,5,6\<newline>'' 5 [21]
       = [''Time,A,B\<newline>t1,1,2\<newline>'', ''Time,A,C\<newline>t3,5,6\<newline>'']
   \<and> concat (segment ''junk\<newline>Time,A,B\<newline>t1,1,2\<newline>Time,A,C\<newline>t3,5,6\<newline>'' 5 [21])
       = drop 5 ''junk\<newline>Time,A,B\<newline>t1,1,2\<newline>Time,A,C\<newline>t3,5,6\<newline>''"
proof -
  let ?self = "fst (init '','' ''utf8'' (Some ''Time'') None None None ''UTC'' no_kwargs
                  :: frame parser \<times> string list)"
  let ?data = "''junk\<newline>Time,A,B\<newline>t1,1,2\<newline>Time,A,C\<newline>t3,5,6\<newline>''"
  have g: "header_group ?self = Inr (literal ''Time'')"
    by (simp add: header_group_def escaped_header_def init_def)
  have h: "header_starts (literal ''Time'') ?data = [5, 21]"
    by code_simp
  have s: "segment ?data 5 [21] = [''Time,A,B\<newline>t1,1,2\<newline>'', ''Time,A,C\<newline>t3,5,6\<newline>'']"
    by (simp add: py_slice_def)
  from blocks_partition_document [OF g h, of plain_pandas "''f.csv''"] h s
  show ?thesis by simp
qed

text \<open>
  Claim C7, as the code has it. The compiled pattern has no anchor at the start of a
  line; \<^verbatim>\<open>$\<close> anchors it at the end of one. Its group is the escaped header string, or
  the configured regular expression as it is. Every header match begins, wherever in a
  line, at an offset where the group matches, or where a quote character stands with the
  group matching right after it, and runs to the end of a line; for a literal marker the
  marker text stands at the start of the match or right after its leading quote. No
  occurrence is skipped: every offset where the pattern can match lies within some
  header match.
\<close>

theorem header_match_shape:
  assumes "header_group self = Inr g"
  shows "(case header_regex self of
            None \<Rightarrow> \<exists>m. header_string self = Some m \<and> g = literal m
          | Some r \<Rightarrow> if fst r = [] then \<exists>m. header_string self = Some m \<and> g = literal m
                      else g = snd r)
     \<and> (\<forall>s e. (s, e) \<in> set (finditer g data 0 False) \<longrightarrow>
           (\<exists>e'. e = line_end data e' \<and>
                 (e' \<in> set (group_ends g data s)
                  \<or> (s < length data \<and> is_quote (data ! s) \<and> e' \<in> set (group_ends g data (Suc s)))))
           \<and> (e = length data \<or> data ! e = newline)
           \<and> (\<forall>m. g = literal m \<longrightarrow>
                 startswith (drop s data) m
                 \<or> (s < length data \<and> is_quote (data ! s) \<and> startswith (drop (Suc s) data) m)))
     \<and> (\<forall>p e. p \<le> length data \<and> e \<in> set (header_ends g data p) \<longrightarrow>
           (\<exists>x \<in> set (finditer g data 0 False). fst x \<le> p \<and> p \<le> snd x))"
proof -
  have a: "(case header_regex self of
            None \<Rightarrow> \<exists>m. header_string self = Some m \<and> g = literal m
          | Some r \<Rightarrow> if fst r = [] then \<exists>m. header_string self = Some m \<and> g = literal m
                      else g = snd r)"
    using assms
    by (auto simp: header_group_def escaped_header_def split: option.splits if_splits)
  have b: "(\<exists>e'. e = line_end data e' \<and>
                 (e' \<in> set (group_ends g data s)
                  \<or> (s < length data \<and> is_quote (data ! s) \<and> e' \<in> set (group_ends g data (Suc s)))))
           \<and> (e = length data \<or> data ! e = newline)
           \<and> (\<forall>m. g = literal m \<longrightarrow>
                 startswith (drop s data) m
                 \<or> (s < length data \<and> is_quote (data ! s) \<and> startswith (drop (Suc s) data) m))"
    if mem: "(s, e) \<in> set (finditer g data 0 False)" for s e
  proof -
    from header_ends_shape [OF finditer_member [OF mem]]
    obtain e' where e': "e = line_end data e'" "e' \<le> length data"
      "e' \<in> set (group_ends g data s)
       \<or> (s < length data \<and> is_quote (data ! s) \<and> e' \<in> set (group_ends g data (Suc s)))"
      by blast
    have 1: "\<exists>e'. e = line_end data e' \<and>
                 (e' \<in> set (group_ends g data s)
                  \<or> (s < length data \<and> is_quote (data ! s) \<and> e' \<in> set (group_ends g data (Suc s))))"
      using e' by blast
    have 2: "e = length data \<or> data ! e = newline"
      using line_end_is_end [OF e'(2)] e'(1) by simp
    have 3: "\<forall>m. g = literal m \<longrightarrow>
                 startswith (drop s data) m
                 \<or> (s < length data \<and> is_quote (data ! s) \<and> startswith (drop (Suc s) data) m)"
      using e'(3) by (auto dest: group_ends_literal)
    from 1 2 3 show ?thesis by blast
  qed
  have c: "\<exists>x \<in> set (finditer g data 0 False). fst x \<le> p \<and> p \<le> snd x"
    if "p \<le> length data \<and> e \<in> set (header_ends g data p)" for p e
    using finditer_covers [of 0 p data e g False] that by simp
  from a b c show ?thesis by blast
qed

theorem header_match_shape_witness:
  "finditer (literal ''Time'') ''x,Time\<newline>'' 0 False = [(2, 6)]
   \<and> ''x,Time\<newline>'' ! 6 = newline
   \<and> startswith (drop 2 ''x,Time\<newline>'') ''Time''"
proof -
  let ?self = "fst (init '','' ''utf8'' (Some ''Time'') None None None ''UTC'' no_kwargs
                  :: frame parser \<times> string list)"
  have g: "header_group ?self = Inr (literal ''Time'')"
    by (simp add: header_group_def escaped_header_def init_def)
  have f: "finditer (literal ''Time'') ''x,Time\<newline>'' 0 False = [(2, 6)]"
    by code_simp
  from header_match_shape [OF g, of "''x,Time\<newline>''"] f
  show ?thesis by (simp add: newline_def)
qed

text \<open>
  Claim C7 as stated fails: with the marker \<^verbatim>\<open>Time\<close>, the one-line document
  \<^verbatim>\<open>x,Time\<close> has a header match at offset 2, after the text \<^verbatim>\<open>x,\<close> of the same
  line, and \<^verbatim>\<open>parse\<close> cuts the block \<^verbatim>\<open>Time\<close> out of the middle of that line.
\<close>

theorem header_not_at_line_start_counterexample:
  "header_group (fst (init '','' ''utf8'' (Some ''Time'') None None None ''UTC'' no_kwargs
                  :: frame parser \<times> string list)) = Inr (literal ''Time'')
   \<and> header_starts (literal ''Time'') ''x,Time\<newline>'' = [2]
   \<and> take 2 ''x,Time\<newline>'' = ''x,''
   \<and> segment ''x,Time\<newline>'' 2 [] = [''Time\<newline>'']"
proof -
  have "header_starts (literal ''Time'') ''x,Time\<newline>'' = [2]" by code_simp
  then show ?thesis
    by (simp add: header_group_def escaped_header_def init_def py_slice_def)
qed

text \<open>
  Claim C4. When the header pattern has no match in the document read, \<^verbatim>\<open>parse\<close>
  returns \<^verbatim>\<open>None\<close>; it logs the information record of every call and exactly one error;
  no exception leaves the call, and a batch goes on with the next document.
\<close>

theorem no_header_returns_none:
  assumes "read_data self raw = Inr (self', data)"
    and "header_group self' = Inr g"
    and "header_starts g data = []"
  shows "parse L self source raw =
           (self', Returned None,
            [(INFO, ''Reading file '' @ source), (ERROR, ''No header found in '' @ source)])
         \<and> errors_logged (snd (snd (parse L self source raw))) = 1
         \<and> parse_each L self ((source, raw) # docs) =
             (case parse_each L self' docs of
                (self'', Raised err, lg) \<Rightarrow>
                  (self'', Raised err,
                   [(INFO, ''Reading file '' @ source), (ERROR, ''No header found in '' @ source)] @ lg)
              | (self'', Returned frames, lg) \<Rightarrow>
                  (self'', Returned (None # frames),
                   [(INFO, ''Reading file '' @ source), (ERROR, ''No header found in '' @ source)] @ lg))"
proof -
  have pd: "parse_data L self' source data = (Returned None, [(ERROR, ''No header found in '' @ source)])"
    using assms(2,3) by (simp add: parse_data_def)
  have p: "parse L self source raw =
           (self', Returned None,
            [(INFO, ''Reading file '' @ source), (ERROR, ''No header found in '' @ source)])"
    by (simp add: parse_unfold [OF assms(1)] pd)
  have e: "errors_logged (snd (snd (parse L self source raw))) = 1"
    by (simp add: p errors_logged_def)
  have b: "parse_each L self ((source, raw) # docs) =
             (case parse_each L self' docs of
                (self'', Raised err, lg) \<Rightarrow>
                  (self'', Raised err,
                   [(INFO, ''Reading file '' @ source), (ERROR, ''No header found in '' @ source)] @ lg)
              | (self'', Returned frames, lg) \<Rightarrow>
                  (self'', Returned (None # frames),
                   [(INFO, ''Reading file '' @ source), (ERROR, ''No header found in '' @ source)] @ lg))"
    by (simp add: p split: prod.splits outcome.splits)
  from p e b show ?thesis by blast
qed

theorem no_header_returns_none_witness:
  "parse plain_pandas
     (fst (init '','' ''utf8'' (Some ''Time'') None None None ''UTC'' no_kwargs))
     ''f.csv'' ''a,b\<newline>1,2\<newline>''
   = (fst (init '','' ''utf8'' (Some ''Time'') None None None ''UTC'' no_kwargs),
      Returned None,
      [(INFO, ''Reading file f.csv''), (ERROR, ''No header found in f.csv'')])"
proof -
  let ?self = "fst (init '','' ''utf8'' (Some ''Time'') None None None ''UTC'' no_kwargs
                  :: frame parser \<times> string list)"
  have r: "read_data ?self ''a,b\<newline>1,2\<newline>'' = Inr (?self, ''a,b\<newline>1,2\<newline>'')"
    by (simp add: read_data_def init_def strip_nul_def NUL_def)
  have g: "header_group ?self = Inr (literal ''Time'')"
    by (simp add: header_group_def escaped_header_def init_def)
  have h: "header_starts (literal ''Time'') ''a,b\<newline>1,2\<newline>'' = []"
    by code_simp
  from no_header_returns_none [OF r g h, of plain_pandas "''f.csv''" "[]"]
  show ?thesis by simp
qed

text \<open>
  Claim C6 fails on the code when the marker is detected from the first line: the first
  field is taken from the text as read, before the NUL characters are removed, and is
  then searched in the text without them. A document whose first field holds a NUL
  gets no header match and \<^verbatim>\<open>parse\<close> returns \<^verbatim>\<open>None\<close>, while the same document with
  the NUL removed parses to a frame.
\<close>

theorem nul_in_first_field_loses_header:
  "snd (parse plain_pandas
          (fst (init '','' ''utf8'' None None None None ''UTC'' no_kwargs))
          ''f.csv'' (''Ti'' @ [NUL] @ ''me,A\<newline>1,2\<newline>''))
     = (Returned None, [(INFO, ''Reading file f.csv''), (ERROR, ''No header found in f.csv'')])
   \<and> strip_nul (''Ti'' @ [NUL] @ ''me,A\<newline>1,2\<newline>'') = ''Time,A\<newline>1,2\<newline>''
   \<and> snd (parse plain_pandas
          (fst (init '','' ''utf8'' None None None None ''UTC'' no_kwargs))
          ''f.csv'' ''Time,A\<newline>1,2\<newline>'')
     = (Returned (Some \<lparr> idx_name = None, idx = [Pos 0], idx_tz = None,
                          cols = [(''Time'', [Some ''1'']), (''A'', [Some ''2''])],
                          attrs_source = Some ''f.csv'' \<rparr>),
        [(INFO, ''Reading file f.csv'')])"
  by code_simp








text \<open>
  Claim C5, as the code has it. With date parsing enabled and a dtype configured, the cast
  follows the two index calls. A warning of the cast whose message starts with
  \<^verbatim>\<open>overflow\<close> is ignored: when every warning is such a one, or is not raised by the
  interpreter, the block keeps the frame the cast returns and no error is logged for it.
  When the cast raises \<^verbatim>\<open>ValueError\<close>, or a warning of class \<^verbatim>\<open>RuntimeWarning\<close> is
  raised as an exception, one error is logged and the frame of the block is absent. An
  exception of another class leaves \<^verbatim>\<open>_parse_frame\<close>.
\<close>

theorem cast_after_timestamps:
  assumes "kw_parse_dates (csv_kwargs self) = Some True"
    and "kw_dtype (csv_kwargs self) = Some dtype"
    and "read_csv L (sep self) (read_kwargs (csv_kwargs self)) data = Inr (w, df0)"
    and "df = filter_columns L (snd (column_regex self)) (dropna_columns L df0)"
    and "index_name L df = Some name"
    and "lg = snd (choose_tz (default_tz self) source name (map (Pair WARNING) w))"
    and "datetime_index L (kw_date_format (csv_kwargs self))
           (fst (choose_tz (default_tz self) source name (map (Pair WARNING) w))) df = Inr df1"
    and "tz_convert L (default_tz self) df1 = Inr df2"
  shows "parse_frame L self data source = cast_frame L dtype source lg df2
     \<and> (\<forall>df'. list_all (\<lambda>w. overflow_filter (snd w) \<or> \<not> warn_is_error L (fst w) (snd w))
                 (fst (astype L dtype df2))
              \<and> snd (astype L dtype df2) = Inr df'
           \<longrightarrow> parse_frame L self data source = (Returned (Some df'), lg))
     \<and> (\<forall>err. list_all (\<lambda>w. overflow_filter (snd w) \<or> \<not> warn_is_error L (fst w) (snd w))
                 (fst (astype L dtype df2))
              \<and> snd (astype L dtype df2) = Inl err \<and> is_ValueError err
           \<longrightarrow> parse_frame L self data source =
                 (Returned None,
                  lg @ [(ERROR, ''Failed converting data in '' @ source @ '': '' @ exc_message err)]))
     \<and> (\<forall>msg. cast_warnings (warn_is_error L) (fst (astype L dtype df2)) = Some (RuntimeWarning msg)
           \<longrightarrow> parse_frame L self data source =
                 (Returned None,
                  lg @ [(ERROR, ''Failed converting data in '' @ source @ '': '' @ msg)]))
     \<and> (\<forall>err. list_all (\<lambda>w. overflow_filter (snd w) \<or> \<not> warn_is_error L (fst w) (snd w))
                 (fst (astype L dtype df2))
              \<and> snd (astype L dtype df2) = Inl err
              \<and> \<not> is_ValueError err \<and> \<not> is_RuntimeWarning err
           \<longrightarrow> parse_frame L self data source = (Raised err, lg))"
proof -
  have pf: "parse_frame L self data source = cast_frame L dtype source lg df2"
    using assms by (simp add: parse_frame_def parse_timestamps_def)
  show ?thesis
    unfolding pf cast_frame_def cast_failed_def
    by (auto dest: cast_warnings_None)
qed

theorem cast_after_timestamps_witness:
  "parse_frame (overflow_warning_pandas False)
     (fst (init '','' ''utf8'' None None None None ''UTC''
            (no_kwargs\<lparr> kw_index_col := Some 0, kw_parse_dates := Some True,
                        kw_dtype := Some (AllColumns ''float32'') \<rparr>)))
     ''Time,A\<newline>t1,1e39\<newline>'' ''f.csv''
   = (Returned (Some \<lparr> idx_name = Some ''Time'', idx = [Stamp (Some ''t1'') ''UTC''],
                        idx_tz = Some ''UTC'', cols = [(''A'', [Some ''1e39''])],
                        attrs_source = None \<rparr>),
      [(WARNING, ''Unable to detect time zone in f.csv, assuming UTC'')])"
proof -
  let ?L = "overflow_warning_pandas False"
  let ?self = "fst (init '','' ''utf8'' None None None None ''UTC''
                 (no_kwargs\<lparr> kw_index_col := Some 0, kw_parse_dates := Some True,
                             kw_dtype := Some (AllColumns ''float32'') \<rparr>)
                 :: frame parser \<times> string list)"
  let ?data = "''Time,A\<newline>t1,1e39\<newline>''"
  let ?f = "\<lparr> idx_name = Some ''Time'', idx = [Key (Some ''t1'')], idx_tz = None,
              cols = [(''A'', [Some ''1e39''])], attrs_source = None \<rparr>"
  let ?f1 = "\<lparr> idx_name = Some ''Time'', idx = [Stamp (Some ''t1'') ''UTC''], idx_tz = Some ''UTC'',
               cols = [(''A'', [Some ''1e39''])], attrs_source = None \<rparr>"
  let ?lg = "[(WARNING, ''Unable to detect time zone in f.csv, assuming UTC'')]"
  have h1: "kw_parse_dates (csv_kwargs ?self) = Some True" by (simp add: init_def)
  have h2: "kw_dtype (csv_kwargs ?self) = Some (AllColumns ''float32'')" by (simp add: init_def)
  have h3: "read_csv ?L (sep ?self) (read_kwargs (csv_kwargs ?self)) ?data = Inr ([], ?f)"
    by code_simp
  have h4: "?f = filter_columns ?L (snd (column_regex ?self)) (dropna_columns ?L ?f)"
    by code_simp
  have h5: "index_name ?L ?f = Some ''Time''"
    by (simp add: overflow_warning_pandas_def plain_pandas_def plain_pandas_on_def)
  have h6: "?lg = snd (choose_tz (default_tz ?self) ''f.csv'' ''Time'' (map (Pair WARNING) []))"
    by code_simp
  have h7: "datetime_index ?L (kw_date_format (csv_kwargs ?self))
           (fst (choose_tz (default_tz ?self) ''f.csv'' ''Time'' (map (Pair WARNING) []))) ?f = Inr ?f1"
    by code_simp
  have h8: "tz_convert ?L (default_tz ?self) ?f1 = Inr ?f1"
    by code_simp
  have w: "list_all (\<lambda>w. overflow_filter (snd w) \<or> \<not> warn_is_error ?L (fst w) (snd w))
             (fst (astype ?L (AllColumns ''float32'') ?f1))"
    by code_simp
  have r: "snd (astype ?L (AllColumns ''float32'') ?f1) = Inr ?f1"
    by code_simp
  note t = cast_after_timestamps [OF h1 h2 h3 h4 h5 h6 h7 h8, THEN conjunct2, THEN conjunct1,
             rule_format, OF conjI [OF w r]]
  show ?thesis by (rule t)
qed

text \<open>
  Claim C5 as stated fails. The block \<^verbatim>\<open>Time,A\<close> / \<^verbatim>\<open>t1,1e39\<close> is parsed with
  \<^verbatim>\<open>index_col=0\<close>, \<^verbatim>\<open>parse_dates=True\<close> and \<^verbatim>\<open>dtype="float32"\<close>. When the cast
  reports the overflow by its warning, the filter installed just before the cast ignores
  it, whether or not the interpreter raises warnings: the frame is returned and no error
  is logged. When the cast raises \<^verbatim>\<open>OverflowError\<close>, the exception leaves
  \<^verbatim>\<open>_parse_frame\<close>.
\<close>

theorem overflow_keeps_block_counterexample:
  "parse_frame (overflow_warning_pandas True)
     (fst (init '','' ''utf8'' None None None None ''UTC''
            (no_kwargs\<lparr> kw_index_col := Some 0, kw_parse_dates := Some True,
                        kw_dtype := Some (AllColumns ''float32'') \<rparr>)))
     ''Time,A\<newline>t1,1e39\<newline>'' ''f.csv''
   = (Returned (Some \<lparr> idx_name = Some ''Time'', idx = [Stamp (Some ''t1'') ''UTC''],
                        idx_tz = Some ''UTC'', cols = [(''A'', [Some ''1e39''])],
                        attrs_source = None \<rparr>),
      [(WARNING, ''Unable to detect time zone in f.csv, assuming UTC'')])
   \<and> parse_frame (overflow_warning_pandas False)
     (fst (init '','' ''utf8'' None None None None ''UTC''
            (no_kwargs\<lparr> kw_index_col := Some 0, kw_parse_dates := Some True,
                        kw_dtype := Some (AllColumns ''float32'') \<rparr>)))
     ''Time,A\<newline>t1,1e39\<newline>'' ''f.csv''
   = (Returned (Some \<lparr> idx_name = Some ''Time'', idx = [Stamp (Some ''t1'') ''UTC''],
                        idx_tz = Some ''UTC'', cols = [(''A'', [Some ''1e39''])],
                        attrs_source = None \<rparr>),
      [(WARNING, ''Unable to detect time zone in f.csv, assuming UTC'')])
   \<and> parse_frame overflow_error_pandas
     (fst (init '','' ''utf8'' None None None None ''UTC''
            (no_kwargs\<lparr> kw_index_col := Some 0, kw_parse_dates := Some True,
                        kw_dtype := Some (AllColumns ''int64'') \<rparr>)))
     ''Time,A\<newline>t1,99999999999999999999\<newline>'' ''f.csv''
   = (Raised (OtherError ''OverflowError'' ''Python int too large to convert to C long''),
      [(WARNING, ''Unable to detect time zone in f.csv, assuming UTC'')])"
  by code_simp

text \<open>
  Claim C2, as the code has it: with \<^verbatim>\<open>index_col=0\<close> passed through to
  \<^verbatim>\<open>read_csv\<close>. The example text, with the header marker \<^verbatim>\<open>Time\<close>, the default
  separator and column filter and no date parsing, has header matches at the offsets 0
  and 23 and so two blocks; the first parses to the rows \<^verbatim>\<open>t1\<close>, \<^verbatim>\<open>t2\<close> with the columns
  \<^verbatim>\<open>A\<close>, \<^verbatim>\<open>B\<close>, the second to the row \<^verbatim>\<open>t3\<close> with the columns \<^verbatim>\<open>A\<close>, \<^verbatim>\<open>C\<close>; the
  merged frame has the index \<^verbatim>\<open>t1\<close>, \<^verbatim>\<open>t2\<close>, \<^verbatim>\<open>t3\<close>, the columns \<^verbatim>\<open>A\<close>, \<^verbatim>\<open>B\<close>,
  \<^verbatim>\<open>C\<close>, nulls at \<open>(t1, C)\<close>, \<open>(t2, C)\<close> and \<open>(t3, B)\<close>, and the source tokens elsewhere.
\<close>

theorem example_merge_with_index_col:
  "header_starts (literal ''Time'')
     ''Time,A,B\<newline>t1,1,2\<newline>t2,3,4\<newline>Time,A,C\<newline>t3,5,6\<newline>'' = [0, 23]
   \<and> segment ''Time,A,B\<newline>t1,1,2\<newline>t2,3,4\<newline>Time,A,C\<newline>t3,5,6\<newline>'' 0 [23]
       = [''Time,A,B\<newline>t1,1,2\<newline>t2,3,4\<newline>'', ''Time,A,C\<newline>t3,5,6\<newline>'']
   \<and> parse_frame plain_pandas
         (fst (init '','' ''utf8'' (Some ''Time'') None None None ''UTC''
                (no_kwargs\<lparr> kw_index_col := Some 0 \<rparr>)))
         ''Time,A,B\<newline>t1,1,2\<newline>t2,3,4\<newline>'' ''f.csv''
       = (Returned (Some \<lparr> idx_name = Some ''Time'',
                            idx = [Key (Some ''t1''), Key (Some ''t2'')],
                            idx_tz = None,
                            cols = [(''A'', [Some ''1'', Some ''3'']), (''B'', [Some ''2'', Some ''4''])],
                            attrs_source = None \<rparr>), [])
   \<and> parse_frame plain_pandas
         (fst (init '','' ''utf8'' (Some ''Time'') None None None ''UTC''
                (no_kwargs\<lparr> kw_index_col := Some 0 \<rparr>)))
         ''Time,A,C\<newline>t3,5,6\<newline>'' ''f.csv''
       = (Returned (Some \<lparr> idx_name = Some ''Time'',
                            idx = [Key (Some ''t3'')],
                            idx_tz = None,
                            cols = [(''A'', [Some ''5'']), (''C'', [Some ''6''])],
                            attrs_source = None \<rparr>), [])
   \<and> snd (parse plain_pandas
         (fst (init '','' ''utf8'' (Some ''Time'') None None None ''UTC''
                (no_kwargs\<lparr> kw_index_col := Some 0 \<rparr>)))
         ''f.csv'' ''Time,A,B\<newline>t1,1,2\<newline>t2,3,4\<newline>Time,A,C\<newline>t3,5,6\<newline>'')
       = (Returned (Some \<lparr> idx_name = Some ''Time'',
                            idx = [Key (Some ''t1''), Key (Some ''t2''), Key (Some ''t3'')],
                            idx_tz = None,
                            cols = [(''A'', [Some ''1'', Some ''3'', Some ''5'']),
                                    (''B'', [Some ''2'', Some ''4'', None]),
                                    (''C'', [None, None, Some ''6''])],
                            attrs_source = Some ''f.csv'' \<rparr>),
          [(INFO, ''Reading file f.csv'')])"
  by code_simp

text \<open>
  Claim C2 as stated fails: with the header marker and every other option at its
  default, \<^verbatim>\<open>read_csv\<close> is called without \<^verbatim>\<open>index_col\<close>, so \<^verbatim>\<open>Time\<close> is a column of
  each block and the index is the row position within the block; the merged frame has
  the index 0, 1, 0 and the columns \<^verbatim>\<open>Time\<close>, \<^verbatim>\<open>A\<close>, \<^verbatim>\<open>B\<close>, \<^verbatim>\<open>C\<close>.
\<close>

theorem example_merge_default_counterexample:
  "snd (parse plain_pandas
         (fst (init '','' ''utf8'' (Some ''Time'') None None None ''UTC'' no_kwargs))
         ''f.csv'' ''Time,A,B\<newline>t1,1,2\<newline>t2,3,4\<newline>Time,A,C\<newline>t3,5,6\<newline>'')
       = (Returned (Some \<lparr> idx_name = None,
                            idx = [Pos 0, Pos 1, Pos 0],
                            idx_tz = None,
                            cols = [(''Time'', [Some ''t1'', Some ''t2'', Some ''t3'']),
                                    (''A'', [Some ''1'', Some ''3'', Some ''5'']),
                                    (''B'', [Some ''2'', Some ''4'', None]),
                                    (''C'', [None, None, Some ''6''])],
                            attrs_source = Some ''f.csv'' \<rparr>),
          [(INFO, ''Reading file f.csv'')])"
  by code_simp




end
